theory Spec2Isabelle
  imports Main
begin

section \<open>Configuration values\<close>

text \<open>
  A configuration is what the YAML files of a service hold: a mapping from string keys to
  values that are scalars, lists or mappings again. A Python dict is a partial function
  from its keys; two dicts are equal when they hold the same values under the same keys,
  which is equality of the functions.
\<close>

datatype val =
    VNone
  | VBool bool
  | VInt int
  | VStr string
  | VList "val list"
  | VDict "string \<Rightarrow> val option"

type_synonym raw_config = "string \<Rightarrow> val option"

fun isinstance_dict :: "val \<Rightarrow> bool" where
  "isinstance_dict (VDict d) = True"
| "isinstance_dict v = False"

section \<open>Layered config merger\<close>

text \<open>
  Modelled from the spec: \<open>deep_merge_dictionaries\<close> of \<open>paasta_tools.utils\<close> is
  imported by \<open>vitess_tools.py\<close> and its body is not part of the sources at hand. The spec
  (4.3): for each key in the union of both mappings, if present only in one, copy it; if
  present in both and both values are mappings, merge recursively; otherwise the overrides
  value wins outright. \<open>merge_val dv ov\<close> is what the merged mapping holds under a key
  that has \<open>dv\<close> in the defaults and \<open>ov\<close> in the overrides.
\<close>

primrec merge_val :: "val \<Rightarrow> val \<Rightarrow> val" where
  "merge_val VNone ov = ov"
| "merge_val (VBool b) ov = ov"
| "merge_val (VInt i) ov = ov"
| "merge_val (VStr s) ov = ov"
| "merge_val (VList xs) ov = ov"
| "merge_val (VDict d) ov =
     (case ov of
        VDict ovr \<Rightarrow>
          VDict (\<lambda>k. case ovr k of
                       None \<Rightarrow> d k
                     | Some v \<Rightarrow>
                         (case (map_option merge_val \<circ> d) k of
                            None \<Rightarrow> Some v
                          | Some m \<Rightarrow> Some (m v)))
      | _ \<Rightarrow> ov)"

text \<open>The call of the source names its arguments: \<open>overrides\<close> first, \<open>defaults\<close> second.\<close>

definition deep_merge_dictionaries :: "raw_config \<Rightarrow> raw_config \<Rightarrow> raw_config" where
  "deep_merge_dictionaries overrides defaults =
     (\<lambda>k. case overrides k of
            None \<Rightarrow> defaults k
          | Some v \<Rightarrow>
              (case defaults k of
                 None \<Rightarrow> Some v
               | Some dv \<Rightarrow> Some (merge_val dv v)))"

section \<open>Job-id codec\<close>

datatype error =
    InvalidJobNameError
  | IllTypedConfig
  | MissingConfiguration
  | MalformedIndex

text \<open>
  \<open>InvalidJobNameError\<close> is the exception \<open>get_registrations\<close> catches (the spec's
  InvalidIdentifier). \<open>MissingConfiguration\<close> and \<open>MalformedIndex\<close> are the fatal
  failures the spec lists for the configuration store and the deployments index.
  \<open>IllTypedConfig\<close> marks a stored value outside the type the config's TypedDict declares
  for its key; what Python does with such a value is not followed any further.
\<close>

definition SPACER :: char where
  "SPACER = CHR ''.''"

text \<open>Python's \<open>str.split(sep)\<close> for a separator of one character.\<close>

fun split_on :: "char \<Rightarrow> string \<Rightarrow> string list" where
  "split_on sep [] = [[]]"
| "split_on sep (x # xs) =
     (if x = sep then [] # split_on sep xs
      else (case split_on sep xs of
              [] \<Rightarrow> [[x]]
            | p # ps \<Rightarrow> (x # p) # ps))"

text \<open>
  Modelled from the spec: \<open>compose_job_id\<close> and \<open>decompose_job_id\<close> of
  \<open>paasta_tools.utils\<close> are imported by \<open>vitess_tools.py\<close> and their bodies are not part
  of the sources at hand. The spec (2, 4.2): \<open>compose\<close> is the deterministic concatenation
  of service name and namespace with a fixed separator, giving a "service.instance"-style
  identifier; \<open>decompose\<close> returns the pair and fails with InvalidIdentifier when the input
  does not contain exactly the expected separator structure.
\<close>

definition compose_job_id :: "string \<Rightarrow> string \<Rightarrow> string" where
  "compose_job_id name inst = name @ [SPACER] @ inst"

definition decompose_job_id :: "string \<Rightarrow> error + (string \<times> string)" where
  "decompose_job_id job_id =
     (case split_on SPACER job_id of
        [name, inst] \<Rightarrow> Inr (name, inst)
      | _ \<Rightarrow> Inl InvalidJobNameError)"

section \<open>Name sanitiser\<close>

definition valid_char :: "char \<Rightarrow> bool" where
  "valid_char c = (c \<in> set ''abcdefghijklmnopqrstuvwxyz0123456789-'')"

text \<open>
  Modelled from the spec: \<open>sanitise_kubernetes_name\<close> of \<open>paasta_tools.kubernetes_tools\<close>
  is imported by \<open>vitess_tools.py\<close> and its body is not part of the sources at hand. The
  spec (4.1): a total function; invalid or unsafe characters are replaced or stripped rather
  than rejected; the output is made of lowercase alphanumerics and hyphens only and has a
  bounded length. The spec fixes neither what an invalid character is replaced by nor the
  bound, so both are arguments: \<open>repl c\<close> is the replacement of the invalid character
  \<open>c\<close> (the empty string when it is stripped) and \<open>bound\<close> the greatest length.
\<close>

definition sanitise_kubernetes_name :: "(char \<Rightarrow> string) \<Rightarrow> nat \<Rightarrow> string \<Rightarrow> string" where
  "sanitise_kubernetes_name repl bound name =
     take bound (concat (map (\<lambda>c. if valid_char c then [c] else repl c) name))"

section \<open>The deployment config of a Vitess instance\<close>

text \<open>
  Modelled from the spec: the declaration of \<open>BranchDictV2\<close> is not part of the sources at
  hand; the spec (3) describes it as the resolved deployment metadata, an image reference
  and a deployed revision.
\<close>

record BranchDictV2 =
  docker_image :: string
  git_sha :: string

text \<open>
  The fields the constructor hands to the base class (\<open>instance\<close> is written
  \<open>instance_name\<close>, the word being reserved here).
\<close>

record VitessDeploymentConfig =
  service :: string
  cluster :: string
  instance_name :: string
  config_dict :: raw_config
  branch_dict :: "BranchDictV2 option"
  soa_dir :: string

definition KUBERNETES_NAMESPACE :: string where
  "KUBERNETES_NAMESPACE = ''paasta-vitess''"

text \<open>
  The accessors of the base class hand back what the constructor stored (the spec's
  ServiceIdentity is immutable once constructed).
\<close>

definition get_service :: "VitessDeploymentConfig \<Rightarrow> string" where
  "get_service c = service c"

definition get_instance :: "VitessDeploymentConfig \<Rightarrow> string" where
  "get_instance c = instance_name c"

definition get_service_name_smartstack :: "VitessDeploymentConfig \<Rightarrow> string" where
  "get_service_name_smartstack c = ''vitess_'' @ get_instance c"

definition get_nerve_namespace :: "VitessDeploymentConfig \<Rightarrow> string" where
  "get_nerve_namespace c = ''main''"

subsection \<open>Registrations\<close>

text \<open>
  The config's TypedDict declares \<open>registrations\<close> as a list of strings; \<open>str_list\<close>
  reads a stored list at that type.
\<close>

fun str_list :: "val list \<Rightarrow> string list option" where
  "str_list [] = Some []"
| "str_list (VStr s # vs) = map_option ((#) s) (str_list vs)"
| "str_list (v # vs) = None"

definition invalid_registration_msg :: "string \<Rightarrow> string \<Rightarrow> string" where
  "invalid_registration_msg registration svc =
     ''Provided registration '' @ registration @ '' for service '' @ svc @ '' is invalid''"

text \<open>
  The \<open>for\<close> loop of \<open>get_registrations\<close>. The module's logger is the state: the
  messages given to \<open>log.error\<close> so far go in and come out extended. The \<open>except\<close>
  clause catches \<open>InvalidJobNameError\<close> only; any other exception leaves the loop.
\<close>

fun check_registrations ::
  "string \<Rightarrow> string list \<Rightarrow> string list \<Rightarrow> (error + unit) \<times> string list" where
  "check_registrations svc [] lg = (Inr (), lg)"
| "check_registrations svc (registration # rest) lg =
     (case decompose_job_id registration of
        Inr parts \<Rightarrow> check_registrations svc rest lg
      | Inl InvalidJobNameError \<Rightarrow>
          check_registrations svc rest (lg @ [invalid_registration_msg registration svc])
      | Inl e \<Rightarrow> (Inl e, lg))"

definition registrations_or_default ::
  "VitessDeploymentConfig \<Rightarrow> string list \<Rightarrow> string list \<Rightarrow> (error + string list) \<times> string list" where
  "registrations_or_default c registrations lg =
     (case check_registrations (service c) registrations lg of
        (Inl e, lg') \<Rightarrow> (Inl e, lg')
      | (Inr u, lg') \<Rightarrow>
          (Inr (if registrations \<noteq> [] then registrations
                else [compose_job_id (get_service_name_smartstack c) ''main'']), lg'))"

definition get_registrations ::
  "VitessDeploymentConfig \<Rightarrow> string list \<Rightarrow> (error + string list) \<times> string list" where
  "get_registrations c lg =
     (case config_dict c ''registrations'' of
        None \<Rightarrow> registrations_or_default c [] lg
      | Some (VList vs) \<Rightarrow>
          (case str_list vs of
             Some registrations \<Rightarrow> registrations_or_default c registrations lg
           | None \<Rightarrow> (Inl IllTypedConfig, lg))
      | Some v \<Rightarrow> (Inl IllTypedConfig, lg))"

subsection \<open>Replica count, namespace, bounce method, sanitised names\<close>

definition get_kubernetes_namespace :: "VitessDeploymentConfig \<Rightarrow> string" where
  "get_kubernetes_namespace c = KUBERNETES_NAMESPACE"

text \<open>\<open>dict.get("replicas", 1)\<close> hands back whatever value is stored under the key.\<close>

definition get_instances :: "VitessDeploymentConfig \<Rightarrow> bool \<Rightarrow> val" where
  "get_instances c with_limit =
     (case config_dict c ''replicas'' of None \<Rightarrow> VInt 1 | Some v \<Rightarrow> v)"

definition get_bounce_method :: "VitessDeploymentConfig \<Rightarrow> string" where
  "get_bounce_method c = ''crossover''"

definition get_sanitised_service_name ::
  "(char \<Rightarrow> string) \<Rightarrow> nat \<Rightarrow> VitessDeploymentConfig \<Rightarrow> string" where
  "get_sanitised_service_name repl bound c = sanitise_kubernetes_name repl bound (get_service c)"

definition get_sanitised_instance_name ::
  "(char \<Rightarrow> string) \<Rightarrow> nat \<Rightarrow> VitessDeploymentConfig \<Rightarrow> string" where
  "get_sanitised_instance_name repl bound c = sanitise_kubernetes_name repl bound (get_instance c)"

definition get_sanitised_deployment_name ::
  "(char \<Rightarrow> string) \<Rightarrow> nat \<Rightarrow> VitessDeploymentConfig \<Rightarrow> string" where
  "get_sanitised_deployment_name repl bound c = get_sanitised_instance_name repl bound c"

subsection \<open>Validation\<close>

text \<open>
  Modelled from the spec: \<open>validate\<close> of the base class \<open>LongRunningServiceConfig\<close>,
  which the method below calls through \<open>super()\<close>, is not part of the sources at hand. The
  spec (4.5): a check is a pure predicate over the config producing zero or one message;
  every check of the list is run regardless of earlier failures and all failure messages
  are aggregated. A check is looked up by its name, so the checks are one function of the
  name and the config, \<open>None\<close> for a check that passes.
\<close>

type_synonym named_check = "string \<Rightarrow> raw_config \<Rightarrow> string option"

fun run_checks :: "named_check \<Rightarrow> raw_config \<Rightarrow> string list \<Rightarrow> string list" where
  "run_checks check cfg [] = []"
| "run_checks check cfg (param # params) =
     (case check param cfg of
        None \<Rightarrow> run_checks check cfg params
      | Some check_msg \<Rightarrow> check_msg # run_checks check cfg params)"

definition base_validate ::
  "named_check \<Rightarrow> VitessDeploymentConfig \<Rightarrow> string list \<Rightarrow> string list" where
  "base_validate check c params = run_checks check (config_dict c) params"

text \<open>
  Modelled from the spec: the checks themselves are not part of the sources at hand. The
  spec (4.5, 8) describes the default set as presence checks (resource-limit,
  security-profile, dependency-reference and deploy-group presence): the check named
  \<open>param\<close> fails when the config has no key \<open>param\<close>. The text of the message is not
  given, so it is the argument \<open>describe\<close>.
\<close>

definition presence_check :: "(string \<Rightarrow> string) \<Rightarrow> named_check" where
  "presence_check describe param cfg =
     (if cfg param = None then Some (describe param) else None)"

text \<open>The default of the argument \<open>params\<close> of \<open>validate\<close>.\<close>

definition default_params :: "string list" where
  "default_params = [''cpus'', ''security'', ''dependencies_reference'', ''deploy_group'']"

definition validate ::
  "named_check \<Rightarrow> VitessDeploymentConfig \<Rightarrow> string list \<Rightarrow> string list" where
  "validate check c params =
     (let error_msgs = base_validate check c params in
      if error_msgs \<noteq> [] then
        (let name = get_instance c in map (\<lambda>msg. name @ '': '' @ msg) error_msgs)
      else [])"

section \<open>Loading the config of an instance\<close>

text \<open>
  Modelled from the spec: the deployments index and its \<open>get_branch_dict\<close> are not part
  of the sources at hand. The spec (4.4, 6): the index is keyed by the composite key
  (service, branch, deploy group) and returns a BranchRecord or absent; the lookup returns
  the absent result, not an error, when no entry exists. An index that cannot be parsed is
  a failure of loading it (\<open>MalformedIndex\<close>).
\<close>

type_synonym deployments_json = "string \<times> string \<times> string \<Rightarrow> BranchDictV2 option"

definition get_branch_dict ::
  "deployments_json \<Rightarrow> string \<Rightarrow> string \<Rightarrow> string \<Rightarrow> BranchDictV2 option" where
  "get_branch_dict deployments svc branch deploy_group = deployments (svc, branch, deploy_group)"

text \<open>
  What the three readers find on disk. Their bodies are not part of the sources at hand
  (\<open>read_service_configuration\<close> belongs to another library), so they are taken as they
  come: each is a function of its arguments that hands back a mapping or fails. The
  arguments are those of the calls, in their order, \<open>soa_dir\<close> last.
\<close>

record soa_store =
  read_service_configuration :: "string \<Rightarrow> string \<Rightarrow> error + raw_config"
  load_service_instance_config ::
    "string \<Rightarrow> string \<Rightarrow> string \<Rightarrow> string \<Rightarrow> string \<Rightarrow> error + raw_config"
  load_v2_deployments_json :: "string \<Rightarrow> string \<Rightarrow> error + deployments_json"

datatype access = ServiceConfiguration | ServiceInstanceConfig | DeploymentsJson

text \<open>
  \<open>load_vitess_instance_config\<close> hands back its result together with the reads it made,
  in their order. An exception of a reader ends the call. \<open>get_branch\<close> and
  \<open>get_deploy_group\<close> are methods of the base class, not part of the sources at hand, and
  are arguments here. The instance type is given to the reader as the source writes it,
  with its leading blank.
\<close>

definition load_vitess_instance_config ::
  "soa_store \<Rightarrow> (VitessDeploymentConfig \<Rightarrow> string) \<Rightarrow> (VitessDeploymentConfig \<Rightarrow> string) \<Rightarrow>
   string \<Rightarrow> string \<Rightarrow> string \<Rightarrow> bool \<Rightarrow> string \<Rightarrow>
   (error + VitessDeploymentConfig) \<times> access list" where
  "load_vitess_instance_config store get_branch get_deploy_group svc inst clus load_deployments soa =
     (case read_service_configuration store svc soa of
        Inl e \<Rightarrow> (Inl e, [ServiceConfiguration])
      | Inr general_config \<Rightarrow>
          (case load_service_instance_config store svc inst '' vitesscluster'' clus soa of
             Inl e \<Rightarrow> (Inl e, [ServiceConfiguration, ServiceInstanceConfig])
           | Inr instance_config \<Rightarrow>
               (let general_config' = deep_merge_dictionaries instance_config general_config in
                if load_deployments then
                  (case load_v2_deployments_json store svc soa of
                     Inl e \<Rightarrow> (Inl e, [ServiceConfiguration, ServiceInstanceConfig, DeploymentsJson])
                   | Inr deployments \<Rightarrow>
                       (let temp_instance_config =
                              \<lparr>service = svc, cluster = clus, instance_name = inst,
                               config_dict = general_config', branch_dict = None, soa_dir = soa\<rparr>;
                            branch = get_branch temp_instance_config;
                            deploy_group = get_deploy_group temp_instance_config
                        in (Inr \<lparr>service = svc, cluster = clus, instance_name = inst,
                                 config_dict = general_config',
                                 branch_dict = get_branch_dict deployments svc branch deploy_group,
                                 soa_dir = soa\<rparr>,
                            [ServiceConfiguration, ServiceInstanceConfig, DeploymentsJson])))
                else
                  (Inr \<lparr>service = svc, cluster = clus, instance_name = inst,
                        config_dict = general_config', branch_dict = None, soa_dir = soa\<rparr>,
                   [ServiceConfiguration, ServiceInstanceConfig]))))"

section \<open>Identity of the custom resource\<close>

text \<open>
  \<open>sanitised_cr_name\<close> of \<open>paasta_tools.kubernetes_tools\<close> is not part of the sources at
  hand and is an argument. The dict the function builds has string keys and string values.
\<close>

definition cr_id :: "(string \<Rightarrow> string \<Rightarrow> string) \<Rightarrow> string \<Rightarrow> string \<Rightarrow> (string \<Rightarrow> string option)" where
  "cr_id sanitised_cr_name svc inst =
     [''group'' \<mapsto> ''yelp.com'',
      ''version'' \<mapsto> ''v1alpha1'',
      ''namespace'' \<mapsto> KUBERNETES_NAMESPACE,
      ''plural'' \<mapsto> ''vitess'',
      ''name'' \<mapsto> sanitised_cr_name svc inst]"

section \<open>Properties of the merger\<close>

lemma merge_val_VDict:
  "merge_val (VDict d) (VDict ovr) = VDict (deep_merge_dictionaries ovr d)"
  by (simp add: deep_merge_dictionaries_def fun_eq_iff split: option.splits)

lemma merge_val_not_both_dicts:
  "\<not> (isinstance_dict dv \<and> isinstance_dict ov) \<Longrightarrow> merge_val dv ov = ov"
  by (cases dv; cases ov) simp_all

lemma deep_merge_empty_overrides: "deep_merge_dictionaries Map.empty d = d"
  by (simp add: deep_merge_dictionaries_def)

lemma deep_merge_empty_defaults: "deep_merge_dictionaries ovr Map.empty = ovr"
  by (simp add: deep_merge_dictionaries_def fun_eq_iff split: option.splits)

lemma dom_deep_merge: "dom (deep_merge_dictionaries ovr d) = dom d \<union> dom ovr"
  by (auto simp: deep_merge_dictionaries_def dom_def split: option.splits)

lemma deep_merge_example:
  "deep_merge_dictionaries
     [''x'' \<mapsto> VDict [''b'' \<mapsto> VInt 3, ''c'' \<mapsto> VInt 4]]
     [''x'' \<mapsto> VDict [''a'' \<mapsto> VInt 1, ''b'' \<mapsto> VInt 2]]
   = [''x'' \<mapsto> VDict [''a'' \<mapsto> VInt 1, ''b'' \<mapsto> VInt 3, ''c'' \<mapsto> VInt 4]]"
  by (auto simp: deep_merge_dictionaries_def fun_eq_iff)

text \<open>
  Claim C1. Merging defaults with an empty overrides mapping returns the defaults, and
  merging an empty defaults mapping with overrides returns the overrides. The keys of the
  result are the keys of either input. Under a key that holds a mapping on both sides the
  result holds the merge of the two; under a key present on both sides where the two values
  are not both mappings (scalars, lists) the result holds the overrides value. The example
  of the spec: defaults \<open>{"x": {"a": 1, "b": 2}}\<close> and overrides
  \<open>{"x": {"b": 3, "c": 4}}\<close> give \<open>{"x": {"a": 1, "b": 3, "c": 4}}\<close>.
\<close>

theorem deep_merge_dictionaries_laws:
  "deep_merge_dictionaries Map.empty defaults = defaults
   \<and> deep_merge_dictionaries overrides Map.empty = overrides
   \<and> dom (deep_merge_dictionaries overrides defaults) = dom defaults \<union> dom overrides
   \<and> (\<forall>k a b. defaults k = Some (VDict a) \<and> overrides k = Some (VDict b) \<longrightarrow>
          deep_merge_dictionaries overrides defaults k = Some (VDict (deep_merge_dictionaries b a)))
   \<and> (\<forall>k dv ov. defaults k = Some dv \<and> overrides k = Some ov
          \<and> \<not> (isinstance_dict dv \<and> isinstance_dict ov) \<longrightarrow>
          deep_merge_dictionaries overrides defaults k = Some ov)
   \<and> deep_merge_dictionaries
         [''x'' \<mapsto> VDict [''b'' \<mapsto> VInt 3, ''c'' \<mapsto> VInt 4]]
         [''x'' \<mapsto> VDict [''a'' \<mapsto> VInt 1, ''b'' \<mapsto> VInt 2]]
       = [''x'' \<mapsto> VDict [''a'' \<mapsto> VInt 1, ''b'' \<mapsto> VInt 3, ''c'' \<mapsto> VInt 4]]"
proof -
  have both_dicts: "\<forall>k a b. defaults k = Some (VDict a) \<and> overrides k = Some (VDict b) \<longrightarrow>
      deep_merge_dictionaries overrides defaults k = Some (VDict (deep_merge_dictionaries b a))"
    by (simp add: deep_merge_dictionaries_def [of overrides defaults] merge_val_VDict
          del: merge_val.simps)
  have wins: "\<forall>k dv ov. defaults k = Some dv \<and> overrides k = Some ov
      \<and> \<not> (isinstance_dict dv \<and> isinstance_dict ov) \<longrightarrow>
      deep_merge_dictionaries overrides defaults k = Some ov"
    by (simp add: deep_merge_dictionaries_def [of overrides defaults] merge_val_not_both_dicts)
  show ?thesis
    by (intro conjI)
      (rule deep_merge_empty_overrides deep_merge_empty_defaults dom_deep_merge
         both_dicts wins deep_merge_example)+
qed

theorem deep_merge_dictionaries_laws_witness:
  "[''x'' \<mapsto> VDict [''a'' \<mapsto> VInt 1], ''n'' \<mapsto> VList [VInt 1, VInt 2]] ''x'' = Some (VDict [''a'' \<mapsto> VInt 1])
   \<and> [''x'' \<mapsto> VDict [''c'' \<mapsto> VInt 4], ''n'' \<mapsto> VList [VInt 7]] ''x'' = Some (VDict [''c'' \<mapsto> VInt 4])
   \<and> deep_merge_dictionaries
        [''x'' \<mapsto> VDict [''c'' \<mapsto> VInt 4], ''n'' \<mapsto> VList [VInt 7]]
        [''x'' \<mapsto> VDict [''a'' \<mapsto> VInt 1], ''n'' \<mapsto> VList [VInt 1, VInt 2]] ''x''
      = Some (VDict (deep_merge_dictionaries [''c'' \<mapsto> VInt 4] [''a'' \<mapsto> VInt 1]))
   \<and> \<not> (isinstance_dict (VList [VInt 1, VInt 2]) \<and> isinstance_dict (VList [VInt 7]))
   \<and> deep_merge_dictionaries
        [''x'' \<mapsto> VDict [''c'' \<mapsto> VInt 4], ''n'' \<mapsto> VList [VInt 7]]
        [''x'' \<mapsto> VDict [''a'' \<mapsto> VInt 1], ''n'' \<mapsto> VList [VInt 1, VInt 2]] ''n''
      = Some (VList [VInt 7])"
proof -
  let ?d = "[''x'' \<mapsto> VDict [''a'' \<mapsto> VInt 1], ''n'' \<mapsto> VList [VInt 1, VInt 2]]"
  let ?o = "[''x'' \<mapsto> VDict [''c'' \<mapsto> VInt 4], ''n'' \<mapsto> VList [VInt 7]]"
  have dx: "?d ''x'' = Some (VDict [''a'' \<mapsto> VInt 1])" by simp
  have ox: "?o ''x'' = Some (VDict [''c'' \<mapsto> VInt 4])" by simp
  have dn: "?d ''n'' = Some (VList [VInt 1, VInt 2])" by simp
  have on: "?o ''n'' = Some (VList [VInt 7])" by simp
  have nd: "\<not> (isinstance_dict (VList [VInt 1, VInt 2]) \<and> isinstance_dict (VList [VInt 7]))"
    by simp
  note laws = deep_merge_dictionaries_laws [of ?d ?o]
  note both = laws [THEN conjunct2, THEN conjunct2, THEN conjunct2, THEN conjunct1, rule_format]
  note wins = laws [THEN conjunct2, THEN conjunct2, THEN conjunct2, THEN conjunct2,
      THEN conjunct1, rule_format]
  have 1: "deep_merge_dictionaries ?o ?d ''x''
      = Some (VDict (deep_merge_dictionaries [''c'' \<mapsto> VInt 4] [''a'' \<mapsto> VInt 1]))"
    by (rule both [OF conjI [OF dx ox]])
  have 2: "deep_merge_dictionaries ?o ?d ''n'' = Some (VList [VInt 7])"
    by (rule wins [OF conjI [OF dn conjI [OF on nd]]])
  show ?thesis by (intro conjI dx ox nd 1 2)
qed

section \<open>Properties of the job-id codec\<close>

lemma split_on_no_sep: "sep \<notin> set b \<Longrightarrow> split_on sep b = [b]"
  by (induction b) auto

lemma split_on_one_sep:
  "sep \<notin> set a \<Longrightarrow> sep \<notin> set b \<Longrightarrow> split_on sep (a @ sep # b) = [a, b]"
  by (induction a) (auto simp: split_on_no_sep)

lemma decompose_job_id_cases:
  "decompose_job_id r = Inl InvalidJobNameError \<or> (\<exists>p. decompose_job_id r = Inr p)"
  by (auto simp: decompose_job_id_def split: list.splits)

text \<open>
  Claim C2. For all strings \<open>a\<close> and \<open>b\<close> without the separator character, decomposing
  the job id composed from \<open>a\<close> and \<open>b\<close> gives back exactly the pair \<open>(a, b)\<close>.
\<close>

theorem decompose_compose_job_id:
  "SPACER \<notin> set a \<Longrightarrow> SPACER \<notin> set b \<Longrightarrow>
   decompose_job_id (compose_job_id a b) = Inr (a, b)"
  by (simp add: decompose_job_id_def compose_job_id_def split_on_one_sep)

theorem decompose_compose_job_id_witness:
  "SPACER \<notin> set ''vitess_host-1'' \<and> SPACER \<notin> set ''main''
   \<and> decompose_job_id (compose_job_id ''vitess_host-1'' ''main'') = Inr (''vitess_host-1'', ''main'')"
  using decompose_compose_job_id [of "''vitess_host-1''" "''main''"]
  by (simp add: SPACER_def)

section \<open>Properties of the registrations\<close>

lemma check_registrations_total:
  "check_registrations svc rs lg =
     (Inr (), lg @ map (\<lambda>r. invalid_registration_msg r svc)
                      (filter (\<lambda>r. decompose_job_id r = Inl InvalidJobNameError) rs))"
proof (induction rs arbitrary: lg)
  case Nil
  then show ?case by simp
next
  case (Cons r rs)
  from decompose_job_id_cases [of r] show ?case
  proof
    assume "decompose_job_id r = Inl InvalidJobNameError"
    then show ?thesis by (simp add: Cons.IH)
  next
    assume "\<exists>p. decompose_job_id r = Inr p"
    then obtain p where "decompose_job_id r = Inr p" ..
    then show ?thesis by (simp add: Cons.IH)
  qed
qed

lemma str_list_map_VStr: "str_list (map VStr rs) = Some rs"
  by (induction rs) auto

text \<open>
  Claim C3. When the config has no \<open>registrations\<close> key or holds the empty list under
  it, \<open>get_registrations\<close> returns exactly one registration, the job id composed from
  \<open>"vitess_" + instance\<close> and \<open>"main"\<close>, and logs nothing. The name in front of the
  separator is the one \<open>get_service_name_smartstack\<close> gives.
\<close>

theorem get_registrations_default:
  "config_dict c ''registrations'' = None \<or> config_dict c ''registrations'' = Some (VList []) \<Longrightarrow>
   get_registrations c lg = (Inr [compose_job_id (''vitess_'' @ instance_name c) ''main''], lg)
   \<and> ''vitess_'' @ instance_name c = get_service_name_smartstack c"
  by (auto simp: get_registrations_def registrations_or_default_def
        get_service_name_smartstack_def get_instance_def)

theorem get_registrations_default_witness:
  "(config_dict \<lparr>service = ''vitess'', cluster = ''norcal'', instance_name = ''host-1'',
      config_dict = [''replicas'' \<mapsto> VInt 3], branch_dict = None, soa_dir = ''/soa''\<rparr> ''registrations'' = None
    \<or> config_dict \<lparr>service = ''vitess'', cluster = ''norcal'', instance_name = ''host-1'',
      config_dict = [''replicas'' \<mapsto> VInt 3], branch_dict = None, soa_dir = ''/soa''\<rparr> ''registrations'' = Some (VList []))
   \<and> get_registrations
        \<lparr>service = ''vitess'', cluster = ''norcal'', instance_name = ''host-1'',
         config_dict = [''replicas'' \<mapsto> VInt 3], branch_dict = None, soa_dir = ''/soa''\<rparr> []
      = (Inr [''vitess_host-1.main''], [])"
  using get_registrations_default
    [of "\<lparr>service = ''vitess'', cluster = ''norcal'', instance_name = ''host-1'',
          config_dict = [''replicas'' \<mapsto> VInt 3], branch_dict = None, soa_dir = ''/soa''\<rparr>" "[]"]
  by (simp add: compose_job_id_def SPACER_def)

text \<open>
  Claim C4, as the code has it. For every list of registrations, \<open>get_registrations\<close>
  logs one error for each entry that does not decompose as a job id, in the order of the
  list, and raises nothing; it returns the list as configured, the entries that failed
  included (the synthesized default when the list is empty).
\<close>

theorem get_registrations_logs_and_keeps:
  "config_dict c ''registrations'' = Some (VList (map VStr rs)) \<Longrightarrow>
   get_registrations c lg =
     (Inr (if rs \<noteq> [] then rs else [compose_job_id (''vitess_'' @ instance_name c) ''main'']),
      lg @ map (\<lambda>r. invalid_registration_msg r (service c))
               (filter (\<lambda>r. decompose_job_id r = Inl InvalidJobNameError) rs))"
  by (simp add: get_registrations_def registrations_or_default_def str_list_map_VStr
        check_registrations_total get_service_name_smartstack_def get_instance_def)

theorem get_registrations_logs_and_keeps_witness:
  "config_dict \<lparr>service = ''vitess'', cluster = ''norcal'', instance_name = ''host-2'',
      config_dict = [''registrations'' \<mapsto> VList (map VStr [''a.b.c'', ''vitess_x.main''])],
      branch_dict = None, soa_dir = ''/soa''\<rparr> ''registrations''
     = Some (VList (map VStr [''a.b.c'', ''vitess_x.main'']))
   \<and> get_registrations
        \<lparr>service = ''vitess'', cluster = ''norcal'', instance_name = ''host-2'',
         config_dict = [''registrations'' \<mapsto> VList (map VStr [''a.b.c'', ''vitess_x.main''])],
         branch_dict = None, soa_dir = ''/soa''\<rparr> [''earlier'']
      = (Inr [''a.b.c'', ''vitess_x.main''],
         [''earlier'', ''Provided registration a.b.c for service vitess is invalid''])"
  using get_registrations_logs_and_keeps
    [of "\<lparr>service = ''vitess'', cluster = ''norcal'', instance_name = ''host-2'',
          config_dict = [''registrations'' \<mapsto> VList (map VStr [''a.b.c'', ''vitess_x.main''])],
          branch_dict = None, soa_dir = ''/soa''\<rparr>" "[''a.b.c'', ''vitess_x.main'']" "[''earlier'']"]
  by (simp add: decompose_job_id_def SPACER_def invalid_registration_msg_def)

text \<open>
  Claim C4, as stated, fails: the entry \<open>bad\<close> does not decompose as a job id, an error
  is logged for it, and it is still the first entry of the returned list.
\<close>

theorem get_registrations_keeps_invalid_counterexample:
  "decompose_job_id ''bad'' = Inl InvalidJobNameError \<and>
   get_registrations
     \<lparr>service = ''vitess'', cluster = ''norcal'', instance_name = ''host-1'',
      config_dict = [''registrations'' \<mapsto> VList [VStr ''bad'', VStr ''vitess_host-1.main'']],
      branch_dict = None, soa_dir = ''/soa''\<rparr> []
   = (Inr [''bad'', ''vitess_host-1.main''],
      [''Provided registration bad for service vitess is invalid''])"
  by (simp add: get_registrations_def registrations_or_default_def decompose_job_id_def
        SPACER_def invalid_registration_msg_def)

section \<open>Properties of the replica count\<close>

text \<open>
  Claim C6. \<open>get_instances\<close> returns 1 when the config has no \<open>replicas\<close> key and the
  stored value when it has one; a config with \<open>"replicas": 5\<close> gives 5.
\<close>

theorem get_instances_default:
  "(config_dict c ''replicas'' = None \<longrightarrow> get_instances c with_limit = VInt 1)
   \<and> (\<forall>v. config_dict c ''replicas'' = Some v \<longrightarrow> get_instances c with_limit = v)"
  by (simp add: get_instances_def)

theorem get_instances_default_witness:
  "config_dict \<lparr>service = ''vitess'', cluster = ''norcal'', instance_name = ''host-1'',
      config_dict = Map.empty, branch_dict = None, soa_dir = ''/soa''\<rparr> ''replicas'' = None
   \<and> get_instances \<lparr>service = ''vitess'', cluster = ''norcal'', instance_name = ''host-1'',
      config_dict = Map.empty, branch_dict = None, soa_dir = ''/soa''\<rparr> True = VInt 1
   \<and> config_dict \<lparr>service = ''vitess'', cluster = ''norcal'', instance_name = ''host-1'',
      config_dict = [''replicas'' \<mapsto> VInt 5], branch_dict = None, soa_dir = ''/soa''\<rparr> ''replicas'' = Some (VInt 5)
   \<and> get_instances \<lparr>service = ''vitess'', cluster = ''norcal'', instance_name = ''host-1'',
      config_dict = [''replicas'' \<mapsto> VInt 5], branch_dict = None, soa_dir = ''/soa''\<rparr> True = VInt 5"
  using get_instances_default
    [of "\<lparr>service = ''vitess'', cluster = ''norcal'', instance_name = ''host-1'',
      config_dict = Map.empty, branch_dict = None, soa_dir = ''/soa''\<rparr>" True]
    get_instances_default
    [of "\<lparr>service = ''vitess'', cluster = ''norcal'', instance_name = ''host-1'',
      config_dict = [''replicas'' \<mapsto> VInt 5], branch_dict = None, soa_dir = ''/soa''\<rparr>" True]
  by simp

section \<open>Properties of the name sanitiser\<close>

lemma sanitise_fixes_valid:
  "\<forall>x \<in> set xs. valid_char x \<Longrightarrow>
   concat (map (\<lambda>c. if valid_char c then [c] else repl c) xs) = xs"
  by (induction xs) auto

lemma sanitise_output_valid:
  "(\<forall>c. \<forall>x \<in> set (repl c). valid_char x) \<Longrightarrow>
   \<forall>x \<in> set (sanitise_kubernetes_name repl bound s). valid_char x"
  by (auto simp: sanitise_kubernetes_name_def dest!: in_set_takeD split: if_splits)

text \<open>
  Claim C9. The sanitiser is a function from strings to strings, with a result on every
  input, and it is idempotent: sanitising a sanitised name changes nothing. The replacements
  are themselves made of valid characters, as the spec asks of the output.
\<close>

theorem sanitise_kubernetes_name_idempotent:
  "(\<forall>c. \<forall>x \<in> set (repl c). valid_char x) \<Longrightarrow>
   sanitise_kubernetes_name repl bound (sanitise_kubernetes_name repl bound s)
     = sanitise_kubernetes_name repl bound s"
proof -
  assume r: "\<forall>c. \<forall>x \<in> set (repl c). valid_char x"
  let ?t = "sanitise_kubernetes_name repl bound s"
  have v: "\<forall>x \<in> set ?t. valid_char x" using r by (rule sanitise_output_valid)
  have "sanitise_kubernetes_name repl bound ?t = take bound ?t"
    unfolding sanitise_kubernetes_name_def [of repl bound ?t]
    using sanitise_fixes_valid [OF v] by simp
  also have "\<dots> = ?t" by (simp add: sanitise_kubernetes_name_def)
  finally show ?thesis .
qed

theorem sanitise_kubernetes_name_idempotent_witness:
  "list_all valid_char ''-''
   \<and> sanitise_kubernetes_name (\<lambda>c. ''-'') 8 ''My_Service'' = ''-y--ervi''
   \<and> sanitise_kubernetes_name (\<lambda>c. ''-'') 8 (sanitise_kubernetes_name (\<lambda>c. ''-'') 8 ''My_Service'')
       = sanitise_kubernetes_name (\<lambda>c. ''-'') 8 ''My_Service''"
  using sanitise_kubernetes_name_idempotent [of "\<lambda>c. ''-''" 8 "''My_Service''"]
  by (simp add: valid_char_def sanitise_kubernetes_name_def)

section \<open>Properties of the validation\<close>

lemma run_checks_map_filter:
  "run_checks check cfg params = List.map_filter (\<lambda>p. check p cfg) params"
  by (induction params) (auto split: option.splits)

lemma validate_eq:
  "validate check c params =
     map (\<lambda>msg. get_instance c @ '': '' @ msg)
         (List.map_filter (\<lambda>p. check p (config_dict c)) params)"
  by (simp add: validate_def base_validate_def run_checks_map_filter Let_def)

lemma length_map_filter:
  "length (List.map_filter f xs) = length (filter (\<lambda>x. f x \<noteq> None) xs)"
  by (simp add: List.map_filter_def)

lemma map_filter_all_None: "\<forall>x \<in> set xs. f x = None \<Longrightarrow> List.map_filter f xs = []"
  by (induction xs) auto

lemma validate_default_two:
  "config_dict c ''cpus'' = None \<Longrightarrow> config_dict c ''security'' = None \<Longrightarrow>
   config_dict c ''dependencies_reference'' \<noteq> None \<Longrightarrow> config_dict c ''deploy_group'' \<noteq> None \<Longrightarrow>
   validate (presence_check describe) c default_params =
     [get_instance c @ '': '' @ describe ''cpus'', get_instance c @ '': '' @ describe ''security'']"
  by (auto simp: validate_def base_validate_def default_params_def presence_check_def Let_def)

text \<open>
  Claim C5. \<open>validate\<close> returns a list and nothing else: the messages of all the checks
  of the list that fail, in the order of the list, each with the instance name and a colon
  in front; a failing check does not keep a later one from running, so there are as many
  messages as failing checks. When every check passes the list is empty. With the presence
  checks and the default check list, a config without the keys \<open>cpus\<close> and
  \<open>security\<close>, the two other checked keys being there, gives exactly two messages, one
  for each missing key, both with the instance name in front.
\<close>

theorem validate_aggregates:
  "validate check c params =
     map (\<lambda>msg. get_instance c @ '': '' @ msg)
         (List.map_filter (\<lambda>p. check p (config_dict c)) params)
   \<and> length (validate check c params)
       = length (filter (\<lambda>p. check p (config_dict c) \<noteq> None) params)
   \<and> (\<forall>m \<in> set (validate check c params). \<exists>msg. m = get_instance c @ '': '' @ msg)
   \<and> ((\<forall>p \<in> set params. check p (config_dict c) = None) \<longrightarrow> validate check c params = [])
   \<and> (config_dict c ''cpus'' = None \<and> config_dict c ''security'' = None
        \<and> config_dict c ''dependencies_reference'' \<noteq> None \<and> config_dict c ''deploy_group'' \<noteq> None \<longrightarrow>
        validate (presence_check describe) c default_params =
          [get_instance c @ '': '' @ describe ''cpus'',
           get_instance c @ '': '' @ describe ''security''])"
proof (intro conjI)
  show "validate check c params =
     map (\<lambda>msg. get_instance c @ '': '' @ msg)
         (List.map_filter (\<lambda>p. check p (config_dict c)) params)"
    by (rule validate_eq)
  show "length (validate check c params)
       = length (filter (\<lambda>p. check p (config_dict c) \<noteq> None) params)"
    by (simp add: validate_eq length_map_filter)
  show "\<forall>m \<in> set (validate check c params). \<exists>msg. m = get_instance c @ '': '' @ msg"
    by (auto simp: validate_eq)
  show "(\<forall>p \<in> set params. check p (config_dict c) = None) \<longrightarrow> validate check c params = []"
    by (simp add: validate_eq map_filter_all_None)
  show "config_dict c ''cpus'' = None \<and> config_dict c ''security'' = None
        \<and> config_dict c ''dependencies_reference'' \<noteq> None \<and> config_dict c ''deploy_group'' \<noteq> None \<longrightarrow>
        validate (presence_check describe) c default_params =
          [get_instance c @ '': '' @ describe ''cpus'',
           get_instance c @ '': '' @ describe ''security'']"
    using validate_default_two by blast
qed

theorem validate_aggregates_witness:
  "validate (presence_check (\<lambda>p. ''missing '' @ p))
     \<lparr>service = ''vitess'', cluster = ''norcal'', instance_name = ''host-1'',
      config_dict = [''dependencies_reference'' \<mapsto> VStr ''deps'', ''deploy_group'' \<mapsto> VStr ''prod''],
      branch_dict = None, soa_dir = ''/soa''\<rparr> default_params
   = [''host-1: missing cpus'', ''host-1: missing security'']
   \<and> validate (presence_check (\<lambda>p. ''missing '' @ p))
     \<lparr>service = ''vitess'', cluster = ''norcal'', instance_name = ''host-1'',
      config_dict = [''dependencies_reference'' \<mapsto> VStr ''deps'', ''deploy_group'' \<mapsto> VStr ''prod''],
      branch_dict = None, soa_dir = ''/soa''\<rparr> [''deploy_group'', ''dependencies_reference'']
   = []"
proof -
  let ?c = "\<lparr>service = ''vitess'', cluster = ''norcal'', instance_name = ''host-1'',
      config_dict = [''dependencies_reference'' \<mapsto> VStr ''deps'', ''deploy_group'' \<mapsto> VStr ''prod''],
      branch_dict = None, soa_dir = ''/soa''\<rparr>"
  let ?check = "presence_check (\<lambda>p. ''missing '' @ p)"
  note laws = validate_aggregates
    [of ?check ?c "[''deploy_group'', ''dependencies_reference'']" "\<lambda>p. ''missing '' @ p"]
  have pass: "\<forall>p \<in> set [''deploy_group'', ''dependencies_reference'']. ?check p (config_dict ?c) = None"
    by (simp add: presence_check_def)
  have absent: "config_dict ?c ''cpus'' = None \<and> config_dict ?c ''security'' = None
        \<and> config_dict ?c ''dependencies_reference'' \<noteq> None \<and> config_dict ?c ''deploy_group'' \<noteq> None"
    by simp
  from laws pass have 1: "validate ?check ?c [''deploy_group'', ''dependencies_reference''] = []"
    by blast
  from laws absent have "validate ?check ?c default_params =
          [get_instance ?c @ '': '' @ ''missing '' @ ''cpus'',
           get_instance ?c @ '': '' @ ''missing '' @ ''security'']"
    by blast
  then have 2: "validate ?check ?c default_params = [''host-1: missing cpus'', ''host-1: missing security'']"
    by (simp add: get_instance_def)
  from 2 1 show ?thesis by (rule conjI)
qed

section \<open>Properties of the resource identity\<close>

text \<open>
  Claim C7. For every service and instance the dict \<open>cr_id\<close> builds has the five keys
  \<open>group\<close>, \<open>version\<close>, \<open>namespace\<close>, \<open>plural\<close> and \<open>name\<close>; group, version and
  plural are fixed strings, the namespace is the module's namespace constant, and the name
  is what \<open>sanitised_cr_name\<close> makes of service and instance and of nothing else, so two
  calls with the same service and instance give the same name.
\<close>

theorem cr_id_fields:
  "cr_id sanitised_cr_name svc inst ''group'' = Some ''yelp.com''
   \<and> cr_id sanitised_cr_name svc inst ''version'' = Some ''v1alpha1''
   \<and> cr_id sanitised_cr_name svc inst ''plural'' = Some ''vitess''
   \<and> cr_id sanitised_cr_name svc inst ''namespace'' = Some KUBERNETES_NAMESPACE
   \<and> cr_id sanitised_cr_name svc inst ''name'' = Some (sanitised_cr_name svc inst)
   \<and> dom (cr_id sanitised_cr_name svc inst)
       = {''group'', ''version'', ''namespace'', ''plural'', ''name''}
   \<and> (\<forall>svc' inst'. svc' = svc \<and> inst' = inst \<longrightarrow>
         cr_id sanitised_cr_name svc' inst' ''name'' = cr_id sanitised_cr_name svc inst ''name'')"
  by (auto simp: cr_id_def)

theorem cr_id_fields_witness:
  "cr_id (\<lambda>s i. s @ ''-'' @ i) ''vitess'' ''host-1'' ''name'' = Some ''vitess-host-1''
   \<and> cr_id (\<lambda>s i. s @ ''-'' @ i) ''vitess'' ''host-1'' ''namespace'' = Some ''paasta-vitess''
   \<and> cr_id (\<lambda>s i. s @ ''-'' @ i) (''vit'' @ ''ess'') ''host-1'' ''name''
       = cr_id (\<lambda>s i. s @ ''-'' @ i) ''vitess'' ''host-1'' ''name''"
  using cr_id_fields [of "\<lambda>s i. s @ ''-'' @ i" "''vitess''" "''host-1''"]
  by (simp add: KUBERNETES_NAMESPACE_def)

section \<open>Properties of loading\<close>

lemma load_reads_ok_no_deployments:
  "read_service_configuration store svc soa = Inr g \<Longrightarrow>
   load_service_instance_config store svc inst '' vitesscluster'' clus soa = Inr i \<Longrightarrow>
   load_vitess_instance_config store get_branch get_deploy_group svc inst clus False soa =
     (Inr \<lparr>service = svc, cluster = clus, instance_name = inst,
           config_dict = deep_merge_dictionaries i g, branch_dict = None, soa_dir = soa\<rparr>,
      [ServiceConfiguration, ServiceInstanceConfig])"
  by (simp add: load_vitess_instance_config_def)

lemma load_reads_ok_deployments:
  "read_service_configuration store svc soa = Inr g \<Longrightarrow>
   load_service_instance_config store svc inst '' vitesscluster'' clus soa = Inr i \<Longrightarrow>
   load_v2_deployments_json store svc soa = Inr deployments \<Longrightarrow>
   load_vitess_instance_config store get_branch get_deploy_group svc inst clus True soa =
     (Inr \<lparr>service = svc, cluster = clus, instance_name = inst,
           config_dict = deep_merge_dictionaries i g,
           branch_dict = get_branch_dict deployments svc
             (get_branch \<lparr>service = svc, cluster = clus, instance_name = inst,
                config_dict = deep_merge_dictionaries i g, branch_dict = None, soa_dir = soa\<rparr>)
             (get_deploy_group \<lparr>service = svc, cluster = clus, instance_name = inst,
                config_dict = deep_merge_dictionaries i g, branch_dict = None, soa_dir = soa\<rparr>),
           soa_dir = soa\<rparr>,
      [ServiceConfiguration, ServiceInstanceConfig, DeploymentsJson])"
  by (simp add: load_vitess_instance_config_def Let_def)

lemma load_no_deployments_reads:
  "DeploymentsJson \<notin> set (snd (load_vitess_instance_config store get_branch get_deploy_group
      svc inst clus False soa))"
  by (simp add: load_vitess_instance_config_def Let_def split: sum.splits)

lemma load_no_deployments_branch:
  "fst (load_vitess_instance_config store get_branch get_deploy_group svc inst clus False soa) = Inr c
   \<Longrightarrow> branch_dict c = None"
  by (auto simp: load_vitess_instance_config_def Let_def split: sum.splits)

lemma load_same_config:
  "fst (load_vitess_instance_config store get_branch get_deploy_group svc inst clus True soa) = Inr c'
   \<Longrightarrow> fst (load_vitess_instance_config store get_branch get_deploy_group svc inst clus False soa)
         = Inr (c'\<lparr>branch_dict := None\<rparr>)"
  by (auto simp: load_vitess_instance_config_def Let_def split: sum.splits)

text \<open>
  Claim C8. When the configuration and the deployments index are read and the index has no
  entry for the service with the branch and the deploy group of the instance, the lookup
  gives the absent record and \<open>load_vitess_instance_config\<close> returns the config with
  \<open>branch_dict\<close> absent: not yet deployed is a result, not a failure.
\<close>

theorem load_not_yet_deployed:
  assumes "read_service_configuration store svc soa = Inr g"
    and "load_service_instance_config store svc inst '' vitesscluster'' clus soa = Inr i"
    and "load_v2_deployments_json store svc soa = Inr deployments"
    and "get_branch \<lparr>service = svc, cluster = clus, instance_name = inst,
           config_dict = deep_merge_dictionaries i g, branch_dict = None, soa_dir = soa\<rparr> = branch"
    and "get_deploy_group \<lparr>service = svc, cluster = clus, instance_name = inst,
           config_dict = deep_merge_dictionaries i g, branch_dict = None, soa_dir = soa\<rparr> = deploy_group"
    and "deployments (svc, branch, deploy_group) = None"
  shows "get_branch_dict deployments svc branch deploy_group = None
    \<and> fst (load_vitess_instance_config store get_branch get_deploy_group svc inst clus True soa)
        = Inr \<lparr>service = svc, cluster = clus, instance_name = inst,
               config_dict = deep_merge_dictionaries i g, branch_dict = None, soa_dir = soa\<rparr>"
proof -
  have absent: "get_branch_dict deployments svc branch deploy_group = None"
    using assms(6) by (simp add: get_branch_dict_def)
  show ?thesis
    using absent assms(4,5)
    by (simp add: load_reads_ok_deployments [OF assms(1,2,3)])
qed

theorem load_not_yet_deployed_witness:
  "map_sum id branch_dict
     (fst (load_vitess_instance_config
        \<lparr>read_service_configuration = (\<lambda>s d. Inr [''deploy_group'' \<mapsto> VStr ''prod'']),
         load_service_instance_config = (\<lambda>s i t c d. Inr [''replicas'' \<mapsto> VInt 2]),
         load_v2_deployments_json =
           (\<lambda>s d. Inr [(''vitess'', ''norcal.host-9'', ''prod'')
                         \<mapsto> \<lparr>docker_image = ''img'', git_sha = ''abc''\<rparr>])\<rparr>
        (\<lambda>c. cluster c @ ''.'' @ instance_name c) (\<lambda>c. ''prod'')
        ''vitess'' ''host-1'' ''norcal'' True ''/soa''))
   = Inr None"
proof -
  let ?g = "[''deploy_group'' \<mapsto> VStr ''prod'']"
  let ?i = "[''replicas'' \<mapsto> VInt 2]"
  let ?d = "[(''vitess'', ''norcal.host-9'', ''prod'') \<mapsto> \<lparr>docker_image = ''img'', git_sha = ''abc''\<rparr>]"
  let ?store = "\<lparr>read_service_configuration = (\<lambda>s d. Inr ?g),
         load_service_instance_config = (\<lambda>s i t c d. Inr ?i),
         load_v2_deployments_json = (\<lambda>s d. Inr ?d)\<rparr>"
  let ?gb = "\<lambda>c. cluster c @ ''.'' @ instance_name c"
  let ?gd = "\<lambda>c::VitessDeploymentConfig. ''prod''"
  have 1: "read_service_configuration ?store ''vitess'' ''/soa'' = Inr ?g" by simp
  have 2: "load_service_instance_config ?store ''vitess'' ''host-1'' '' vitesscluster'' ''norcal'' ''/soa''
      = Inr ?i" by simp
  have 3: "load_v2_deployments_json ?store ''vitess'' ''/soa'' = Inr ?d" by simp
  have 4: "?gb \<lparr>service = ''vitess'', cluster = ''norcal'', instance_name = ''host-1'',
           config_dict = deep_merge_dictionaries ?i ?g, branch_dict = None, soa_dir = ''/soa''\<rparr>
      = ''norcal.host-1''" by simp
  have 5: "?gd \<lparr>service = ''vitess'', cluster = ''norcal'', instance_name = ''host-1'',
           config_dict = deep_merge_dictionaries ?i ?g, branch_dict = None, soa_dir = ''/soa''\<rparr>
      = ''prod''" by simp
  have 6: "?d (''vitess'', ''norcal.host-1'', ''prod'') = None" by simp
  from load_not_yet_deployed
    [where store = ?store and get_branch = ?gb and get_deploy_group = ?gd
       and svc = "''vitess''" and inst = "''host-1''" and clus = "''norcal''" and soa = "''/soa''"
       and g = ?g and i = ?i and deployments = ?d
       and branch = "''norcal.host-1''" and deploy_group = "''prod''"]
    1 2 3 4 5 6
  show ?thesis by simp
qed

text \<open>
  Claim C10. A call with \<open>load_deployments\<close> false never reads the deployments index; a
  config it returns has \<open>branch_dict\<close> absent; it returns one whenever the two
  configuration reads succeed, with the merge of the two as \<open>config_dict\<close>; and whenever
  the call with \<open>load_deployments\<close> true returns a config, the call without returns one
  with the same \<open>config_dict\<close>.
\<close>

theorem load_without_deployments:
  "DeploymentsJson \<notin> set (snd (load_vitess_instance_config store get_branch get_deploy_group
      svc inst clus False soa))
   \<and> (\<forall>c. fst (load_vitess_instance_config store get_branch get_deploy_group svc inst clus False soa)
          = Inr c \<longrightarrow> branch_dict c = None)
   \<and> (\<forall>c'. fst (load_vitess_instance_config store get_branch get_deploy_group svc inst clus True soa)
          = Inr c' \<longrightarrow>
        (\<exists>c. fst (load_vitess_instance_config store get_branch get_deploy_group svc inst clus False soa)
          = Inr c \<and> config_dict c = config_dict c' \<and> branch_dict c = None))
   \<and> (\<forall>g i. read_service_configuration store svc soa = Inr g
          \<and> load_service_instance_config store svc inst '' vitesscluster'' clus soa = Inr i \<longrightarrow>
        load_vitess_instance_config store get_branch get_deploy_group svc inst clus False soa =
          (Inr \<lparr>service = svc, cluster = clus, instance_name = inst,
                config_dict = deep_merge_dictionaries i g, branch_dict = None, soa_dir = soa\<rparr>,
           [ServiceConfiguration, ServiceInstanceConfig]))"
proof (intro conjI allI impI)
  show "DeploymentsJson \<notin> set (snd (load_vitess_instance_config store get_branch get_deploy_group
      svc inst clus False soa))"
    by (rule load_no_deployments_reads)
next
  fix c
  assume "fst (load_vitess_instance_config store get_branch get_deploy_group svc inst clus False soa)
          = Inr c"
  then show "branch_dict c = None" by (rule load_no_deployments_branch)
next
  fix c'
  assume "fst (load_vitess_instance_config store get_branch get_deploy_group svc inst clus True soa)
          = Inr c'"
  then have "fst (load_vitess_instance_config store get_branch get_deploy_group svc inst clus False soa)
         = Inr (c'\<lparr>branch_dict := None\<rparr>)"
    by (rule load_same_config)
  then show "\<exists>c. fst (load_vitess_instance_config store get_branch get_deploy_group svc inst clus False soa)
          = Inr c \<and> config_dict c = config_dict c' \<and> branch_dict c = None"
    by simp
next
  fix g i
  assume "read_service_configuration store svc soa = Inr g
          \<and> load_service_instance_config store svc inst '' vitesscluster'' clus soa = Inr i"
  then show "load_vitess_instance_config store get_branch get_deploy_group svc inst clus False soa =
          (Inr \<lparr>service = svc, cluster = clus, instance_name = inst,
                config_dict = deep_merge_dictionaries i g, branch_dict = None, soa_dir = soa\<rparr>,
           [ServiceConfiguration, ServiceInstanceConfig])"
    by (simp add: load_reads_ok_no_deployments)
qed

theorem load_without_deployments_witness:
  "map_sum id branch_dict
     (fst (load_vitess_instance_config
        \<lparr>read_service_configuration = (\<lambda>s d. Inr [''deploy_group'' \<mapsto> VStr ''prod'']),
         load_service_instance_config = (\<lambda>s i t c d. Inr [''replicas'' \<mapsto> VInt 2]),
         load_v2_deployments_json =
           (\<lambda>s d. Inr [(''vitess'', ''norcal.host-1'', ''prod'')
                         \<mapsto> \<lparr>docker_image = ''img'', git_sha = ''abc''\<rparr>])\<rparr>
        (\<lambda>c. cluster c @ ''.'' @ instance_name c) (\<lambda>c. ''prod'')
        ''vitess'' ''host-1'' ''norcal'' False ''/soa''))
   = Inr None
   \<and> snd (load_vitess_instance_config
        \<lparr>read_service_configuration = (\<lambda>s d. Inr [''deploy_group'' \<mapsto> VStr ''prod'']),
         load_service_instance_config = (\<lambda>s i t c d. Inr [''replicas'' \<mapsto> VInt 2]),
         load_v2_deployments_json =
           (\<lambda>s d. Inr [(''vitess'', ''norcal.host-1'', ''prod'')
                         \<mapsto> \<lparr>docker_image = ''img'', git_sha = ''abc''\<rparr>])\<rparr>
        (\<lambda>c. cluster c @ ''.'' @ instance_name c) (\<lambda>c. ''prod'')
        ''vitess'' ''host-1'' ''norcal'' False ''/soa'')
   = [ServiceConfiguration, ServiceInstanceConfig]
   \<and> map_sum id branch_dict
     (fst (load_vitess_instance_config
        \<lparr>read_service_configuration = (\<lambda>s d. Inr [''deploy_group'' \<mapsto> VStr ''prod'']),
         load_service_instance_config = (\<lambda>s i t c d. Inr [''replicas'' \<mapsto> VInt 2]),
         load_v2_deployments_json =
           (\<lambda>s d. Inr [(''vitess'', ''norcal.host-1'', ''prod'')
                         \<mapsto> \<lparr>docker_image = ''img'', git_sha = ''abc''\<rparr>])\<rparr>
        (\<lambda>c. cluster c @ ''.'' @ instance_name c) (\<lambda>c. ''prod'')
        ''vitess'' ''host-1'' ''norcal'' True ''/soa''))
   = Inr (Some \<lparr>docker_image = ''img'', git_sha = ''abc''\<rparr>)"
proof -
  let ?g = "[''deploy_group'' \<mapsto> VStr ''prod'']"
  let ?i = "[''replicas'' \<mapsto> VInt 2]"
  let ?d = "[(''vitess'', ''norcal.host-1'', ''prod'') \<mapsto> \<lparr>docker_image = ''img'', git_sha = ''abc''\<rparr>]"
  let ?store = "\<lparr>read_service_configuration = (\<lambda>s d. Inr ?g),
         load_service_instance_config = (\<lambda>s i t c d. Inr ?i),
         load_v2_deployments_json = (\<lambda>s d. Inr ?d)\<rparr>"
  let ?gb = "\<lambda>c. cluster c @ ''.'' @ instance_name c"
  let ?gd = "\<lambda>c::VitessDeploymentConfig. ''prod''"
  have reads: "read_service_configuration ?store ''vitess'' ''/soa'' = Inr ?g
      \<and> load_service_instance_config ?store ''vitess'' ''host-1'' '' vitesscluster'' ''norcal'' ''/soa''
          = Inr ?i"
    by simp
  note laws = load_without_deployments [of ?store ?gb ?gd "''vitess''" "''host-1''" "''norcal''" "''/soa''"]
  note returns = laws [THEN conjunct2, THEN conjunct2, THEN conjunct2, rule_format, OF reads]
  have with_deployments: "map_sum id branch_dict
      (fst (load_vitess_instance_config ?store ?gb ?gd ''vitess'' ''host-1'' ''norcal'' True ''/soa''))
      = Inr (Some \<lparr>docker_image = ''img'', git_sha = ''abc''\<rparr>)"
    by (simp add: load_vitess_instance_config_def get_branch_dict_def)
  from returns with_deployments show ?thesis by simp
qed

end
